theory Spec2Isabelle
  imports Complex_Main "HOL-Library.Multiset" "HOL-Library.Sublist"
begin

section \<open>Enumerations (enums.py)\<close>

datatype CVDType = PROTAN | DEUTAN | TRITAN | GRAYSCALE

datatype Algorithm = BRETTEL_1997 | VIENOT_1999 | MACHADO_2009 | VISCHECK | AUTO

datatype OutputFormat = JPEG | PNG | WEBP | TIFF | BMP

datatype LogLevel = DEBUG | INFO | WARNING | ERROR | CRITICAL

text \<open>The values of the members that go into file names, and
  \<open>OutputFormat.pil_format\<close>.\<close>

fun cvd_value :: "CVDType \<Rightarrow> string" where
  "cvd_value PROTAN = ''protan''"
| "cvd_value DEUTAN = ''deutan''"
| "cvd_value TRITAN = ''tritan''"
| "cvd_value GRAYSCALE = ''bw''"

fun format_value :: "OutputFormat \<Rightarrow> string" where
  "format_value JPEG = ''jpg''"
| "format_value PNG = ''png''"
| "format_value WEBP = ''webp''"
| "format_value TIFF = ''tiff''"
| "format_value BMP = ''bmp''"

fun pil_format :: "OutputFormat \<Rightarrow> string" where
  "pil_format JPEG = ''JPEG''"
| "pil_format PNG = ''PNG''"
| "pil_format WEBP = ''WEBP''"
| "pil_format TIFF = ''TIFF''"
| "pil_format BMP = ''BMP''"

section \<open>Configuration (config.py)\<close>

text \<open>
  The dataclass \<open>SimulationConfig\<close>. Python does not enforce the annotation of
  \<open>output_directory\<close>, and \<open>_validate\<close> tests it with \<open>isinstance\<close>, so the field
  holds either a \<open>pathlib.Path\<close> or some other object. \<open>severity\<close> is compared with
  the exactly representable bounds \<open>0.0\<close> and \<open>1.0\<close> only, so it is a real number
  here (a NaN fails the first check like every value outside of the interval);
  \<open>max_workers\<close> is \<open>int | None\<close>.
\<close>

datatype dir_value = PathValue string | OtherValue string

record SimulationConfig =
  algorithm :: Algorithm
  severity :: real
  output_format :: OutputFormat
  output_directory :: dir_value
  quality :: int
  optimize :: bool
  log_level :: LogLevel
  max_workers :: "int option"
  max_image_size :: int
  max_image_dimension :: int

text \<open>\<open>ValidationError\<close> with its \<open>field\<close> attribute.\<close>

datatype ValidationError = ValidationError string

fun is_Path :: "dir_value \<Rightarrow> bool" where
  "is_Path (PathValue p) = True"
| "is_Path (OtherValue v) = False"

text \<open>\<open>SimulationConfig._validate\<close>: the six checks in the order of the source; the
  first one that fails raises.\<close>

definition validate :: "SimulationConfig \<Rightarrow> ValidationError + unit" where
  "validate c =
     (if \<not> (0 \<le> severity c \<and> severity c \<le> 1) then Inl (ValidationError ''severity'')
      else if \<not> (1 \<le> quality c \<and> quality c \<le> 95) then Inl (ValidationError ''quality'')
      else if \<not> is_Path (output_directory c) then Inl (ValidationError ''output_directory'')
      else if (case max_workers c of None \<Rightarrow> False | Some w \<Rightarrow> w < 1)
        then Inl (ValidationError ''max_workers'')
      else if max_image_size c < 1 then Inl (ValidationError ''max_image_size'')
      else if max_image_dimension c < 1 then Inl (ValidationError ''max_image_dimension'')
      else Inr ())"

text \<open>Construction: the generated \<open>__init__\<close> stores the fields and calls
  \<open>__post_init__\<close>, which calls \<open>_validate\<close>; an exception there leaves the caller
  without an instance.\<close>

definition new_SimulationConfig :: "SimulationConfig \<Rightarrow> ValidationError + SimulationConfig" where
  "new_SimulationConfig c = (case validate c of Inl e \<Rightarrow> Inl e | Inr u \<Rightarrow> Inr c)"

text \<open>The defaults of the dataclass fields (with the default output directory).\<close>

definition default_config :: SimulationConfig where
  "default_config =
     \<lparr> algorithm = BRETTEL_1997, severity = 8 / 10, output_format = JPEG,
       output_directory = PathValue ''./outputs'', quality = 95, optimize = True,
       log_level = INFO, max_workers = None, max_image_size = 100 * 1024 * 1024,
       max_image_dimension = 10000 \<rparr>"

section \<open>Path sanitizing (utils/validators.py)\<close>

text \<open>\<open>str.replace(old, new)\<close> for a non-empty \<open>old\<close>: occurrences are replaced
  from the left and do not overlap. An empty \<open>old\<close> does not occur in the source and
  leaves the string as it is here.\<close>

function replace :: "string \<Rightarrow> string \<Rightarrow> string \<Rightarrow> string" where
  "replace old new s =
     (if s = [] \<or> old = [] then s
      else if prefix old s then new @ replace old new (drop (length old) s)
      else hd s # replace old new (tl s))"
  by pat_completeness auto
termination
  by (relation "measure (\<lambda>(old, new, s). length s)") auto

definition safe_chars :: string where
  "safe_chars = ''abcdefghijklmnopqrstuvwxyzABCDEFGHIJKLMNOPQRSTUVWXYZ0123456789._-''"

text \<open>The list \<open>dangerous\<close>: the slash, the backslash, the null byte and the
  parent reference.\<close>

definition dangerous :: "string list" where
  "dangerous = [''/'', [CHR 0x5C], [CHR 0x00], ''..'']"

definition sanitize_filename :: "string \<Rightarrow> string" where
  "sanitize_filename filename =
     (let result = foldl (\<lambda>r d. replace d ''_'' r) filename dangerous;
          result = map (\<lambda>c. if c \<in> set safe_chars then c else CHR ''_'') result
      in if result = [] \<or> result = ''_'' then ''unnamed_file'' else result)"

text \<open>
  A \<open>Path\<close> is the list of its parts, the root \<open>/\<close> first when it is absolute.
  \<open>output_dir / name\<close> parses the name as the POSIX flavour of \<open>pathlib\<close> does: it
  is split at slashes, empty parts and \<open>.\<close> are dropped, and a name that starts with
  a slash replaces the left operand. \<open>Path.resolve\<close> depends on the file system
  (working directory, symbolic links) and is a parameter.
\<close>

type_synonym parts = "string list"

fun split_on :: "char \<Rightarrow> string \<Rightarrow> string list" where
  "split_on sep [] = [[]]"
| "split_on sep (c # cs) =
     (if c = sep then [] # split_on sep cs
      else (case split_on sep cs of
              [] \<Rightarrow> [[c]]
            | w # ws \<Rightarrow> (c # w) # ws))"

definition parse_parts :: "string \<Rightarrow> parts" where
  "parse_parts name = filter (\<lambda>w. w \<noteq> [] \<and> w \<noteq> ''.'') (split_on CHR ''/'' name)"

definition joinpath :: "parts \<Rightarrow> string \<Rightarrow> parts" where
  "joinpath base name =
     (if prefix ''/'' name then ''/'' # parse_parts name else base @ parse_parts name)"

datatype SecurityError = SecurityError string

text \<open>\<open>SecurityValidator.sanitize_output_path\<close>; \<open>target.relative_to(output_dir)\<close>
  succeeds exactly when the parts of \<open>output_dir\<close> are a prefix of those of
  \<open>target\<close>.\<close>

definition sanitize_output_path :: "(parts \<Rightarrow> parts) \<Rightarrow> parts \<Rightarrow> string \<Rightarrow> SecurityError + parts" where
  "sanitize_output_path resolve output_dir filename =
     (let output_dir = resolve output_dir;
          safe_filename = sanitize_filename filename;
          target = resolve (joinpath output_dir safe_filename)
      in if prefix output_dir target then Inr target
         else Inl (SecurityError ''PATH_TRAVERSAL''))"

text \<open>\<open>Path(s)\<close> for a string and \<open>str(p)\<close> for a path.\<close>

definition path_of :: "string \<Rightarrow> parts" where
  "path_of s = joinpath [] s"

fun join_with :: "string \<Rightarrow> string list \<Rightarrow> string" where
  "join_with sep [] = []"
| "join_with sep [w] = w"
| "join_with sep (w # ws) = w @ sep @ join_with sep ws"

definition path_str :: "parts \<Rightarrow> string" where
  "path_str ps =
     (case ps of
        [] \<Rightarrow> ''.''
      | w # ws \<Rightarrow> if w = ''/'' then ''/'' @ join_with ''/'' ws else join_with ''/'' ps)"

text \<open>A purely lexical \<open>resolve\<close> for the examples: \<open>..\<close> removes the part before
  it (the root stays), as on a file system without symbolic links.\<close>

fun lexical_resolve_acc :: "parts \<Rightarrow> parts \<Rightarrow> parts" where
  "lexical_resolve_acc acc [] = rev acc"
| "lexical_resolve_acc acc (w # ws) =
     (if w = ''..'' then lexical_resolve_acc (if length acc \<le> 1 then acc else tl acc) ws
      else lexical_resolve_acc (w # acc) ws)"

definition lexical_resolve :: "parts \<Rightarrow> parts" where
  "lexical_resolve p = lexical_resolve_acc [] p"

text \<open>A \<open>resolve\<close> on a file system where \<open>/safe/output/link\<close> is a symbolic link to
  \<open>/etc\<close>.\<close>

definition link_resolve :: "parts \<Rightarrow> parts" where
  "link_resolve p = (if p = [''/'', ''safe'', ''output'', ''link''] then [''/'', ''etc''] else p)"

section \<open>Single-image simulation (core/simulator.py, core/output_writer.py)\<close>

text \<open>
  An image in mode RGB is its size and its pixels, each three channel values; an
  image in mode L has one value per pixel. Input and output paths in the results
  are \<open>pathlib.Path\<close> values, written as their strings.
\<close>

type_synonym path = string

type_synonym pixel = "nat \<times> nat \<times> nat"

record image =
  width :: nat
  height :: nat
  pixels :: "pixel list"

record image_L =
  width_L :: nat
  height_L :: nat
  pixels_L :: "nat list"

text \<open>The keyword arguments \<open>OutputWriter.save\<close> passes to \<open>Image.save\<close>.\<close>

datatype setting = SStr string | SInt int | SBool bool

text \<open>
  What the simulator reads from outside of the program, as parameters:
  \<open>ImageLoader.load\<close> taken as a whole (it validates and decodes the file with
  Pillow), Pillow's luminance of one RGB pixel (used by \<open>convert("L")\<close>), the
  transform of the external simulation library, \<open>Path.resolve\<close>, \<open>Path.mkdir\<close>,
  Pillow's \<open>Image.save\<close>, the clock, and the process pool together with
  \<open>as_completed\<close> (given the worker count and the submitted units it yields the
  completed units in some order). An exception is the value \<open>Inl\<close> with its
  message. \<open>clock\<close> gives, for an input path, what
  \<open>datetime.now().strftime("%Y%m%d_%H%M%S")\<close> returns while the unit of work of that
  path runs. The outcome of a parameter depends on its arguments only: the file
  system does not change under a run. Two runs at different times are runs in
  different environments.
\<close>

type_synonym outputs = "(CVDType \<times> path) list"

datatype item_result = AllTypes outputs | OneType path

type_synonym unit_of_work = "path \<times> item_result option"

record collaborators =
  loader_load :: "path \<Rightarrow> string + image"
  luminance :: "pixel \<Rightarrow> nat"
  simulate_cvd :: "Algorithm \<Rightarrow> CVDType \<Rightarrow> real \<Rightarrow> image \<Rightarrow> string + image"
  resolve_path :: "parts \<Rightarrow> parts"
  mkdir :: "parts \<Rightarrow> string + unit"
  image_save :: "parts \<Rightarrow> image \<Rightarrow> (string \<times> setting) list \<Rightarrow> string + unit"
  clock :: "path \<Rightarrow> string"
  executor :: "int \<Rightarrow> unit_of_work list \<Rightarrow> unit_of_work list"

text \<open>\<open>image.convert("L")\<close> and \<open>.convert("RGB")\<close> of a mode-L image, which
  copies the single channel into all three.\<close>

definition convert_L :: "(pixel \<Rightarrow> nat) \<Rightarrow> image \<Rightarrow> image_L" where
  "convert_L lum img =
     \<lparr> width_L = width img, height_L = height img, pixels_L = map lum (pixels img) \<rparr>"

definition convert_RGB :: "image_L \<Rightarrow> image" where
  "convert_RGB g =
     \<lparr> width = width_L g, height = height_L g, pixels = map (\<lambda>l. (l, l, l)) (pixels_L g) \<rparr>"

text \<open>\<open>CVDSimulator.simulate\<close>: grayscale is handled first and reads nothing of the
  configuration; every other type goes to the external transform, whose failure is
  wrapped in a \<open>CVDSimulatorError\<close>.\<close>

definition simulate :: "collaborators \<Rightarrow> SimulationConfig \<Rightarrow> image \<Rightarrow> CVDType \<Rightarrow> string + image" where
  "simulate env cfg img cvd_type =
     (if cvd_type = GRAYSCALE then Inr (convert_RGB (convert_L (luminance env) img))
      else (case simulate_cvd env (algorithm cfg) cvd_type (severity cfg) img of
              Inl e \<Rightarrow> Inl (''Failed to simulate: '' @ e)
            | Inr result \<Rightarrow> Inr result))"

text \<open>\<open>OutputWriter._get_format_settings\<close>.\<close>

definition get_format_settings :: "SimulationConfig \<Rightarrow> (string \<times> setting) list" where
  "get_format_settings cfg =
     (let fmt = output_format cfg;
          settings = [(''format'', SStr (pil_format fmt))]
      in if fmt = JPEG then
           settings @ [(''quality'', SInt (quality cfg)), (''optimize'', SBool (optimize cfg))]
         else if fmt = PNG then settings @ [(''optimize'', SBool (optimize cfg))]
         else if fmt = WEBP then settings @ [(''quality'', SInt (quality cfg)), (''method'', SInt 6)]
         else settings)"

text \<open>\<open>OutputWriter._generate_output_path\<close>: the file name is
  \<open>{name_base}_{timestamp}.{extension}\<close>, with the value of the type and \<open>_image\<close>
  as base unless a non-empty custom name is given, sanitized into the output
  directory. An output directory that is no \<open>Path\<close> has no \<open>resolve\<close>.\<close>

definition generate_output_path ::
  "collaborators \<Rightarrow> SimulationConfig \<Rightarrow> CVDType \<Rightarrow> string \<Rightarrow> string option \<Rightarrow> string + parts" where
  "generate_output_path env cfg cvd_type timestamp custom_name =
     (let name_base = (case custom_name of
                         Some n \<Rightarrow> if n \<noteq> [] then n else cvd_value cvd_type @ ''_image''
                       | None \<Rightarrow> cvd_value cvd_type @ ''_image'');
          filename = name_base @ ''_'' @ timestamp @ ''.'' @ format_value (output_format cfg)
      in case output_directory cfg of
           OtherValue v \<Rightarrow> Inl ''AttributeError''
         | PathValue d \<Rightarrow>
             (case sanitize_output_path (resolve_path env) (path_of d) filename of
                Inl (SecurityError violation_type) \<Rightarrow> Inl violation_type
              | Inr target \<Rightarrow> Inr target))"

text \<open>\<open>OutputWriter.save\<close>. \<open>now\<close> is what the clock gives when the method reads
  it, which it does only without a timestamp. The path and the directory are made
  before the \<open>try\<close>; only a failure of \<open>Image.save\<close> is wrapped.\<close>

definition save ::
  "collaborators \<Rightarrow> SimulationConfig \<Rightarrow> string \<Rightarrow> image \<Rightarrow> CVDType \<Rightarrow> string option \<Rightarrow> string option
     \<Rightarrow> string + path" where
  "save env cfg now img cvd_type timestamp custom_name =
     (let timestamp = (case timestamp of None \<Rightarrow> now | Some t \<Rightarrow> t)
      in case generate_output_path env cfg cvd_type timestamp custom_name of
           Inl e \<Rightarrow> Inl e
         | Inr output_path \<Rightarrow>
             (case output_directory cfg of
                OtherValue v \<Rightarrow> Inl ''AttributeError''
              | PathValue d \<Rightarrow>
                  (case mkdir env (path_of d) of
                     Inl e \<Rightarrow> Inl e
                   | Inr u \<Rightarrow>
                       (case image_save env output_path img (get_format_settings cfg) of
                          Inl e \<Rightarrow> Inl (''Failed to save image: '' @ e)
                        | Inr u \<Rightarrow> Inr (path_str output_path)))))"

text \<open>\<open>CVDSimulator.process_image\<close>: load, fix the timestamp (the one given, when it
  is not empty, else the clock), then for every member of \<open>CVDType\<close> in declaration
  order simulate and save under that timestamp; an exception inside the loop is
  logged and raised again.\<close>

fun process_types ::
  "collaborators \<Rightarrow> SimulationConfig \<Rightarrow> image \<Rightarrow> string \<Rightarrow> CVDType list \<Rightarrow> outputs \<Rightarrow> string + outputs" where
  "process_types env cfg img timestamp [] results = Inr results"
| "process_types env cfg img timestamp (cvd_type # rest) results =
     (case simulate env cfg img cvd_type of
        Inl e \<Rightarrow> Inl e
      | Inr simulated \<Rightarrow>
          (case save env cfg timestamp simulated cvd_type (Some timestamp) None of
             Inl e \<Rightarrow> Inl e
           | Inr output_path \<Rightarrow>
               process_types env cfg img timestamp rest (results @ [(cvd_type, output_path)])))"

definition process_image_at ::
  "collaborators \<Rightarrow> SimulationConfig \<Rightarrow> path \<Rightarrow> string option \<Rightarrow> string + outputs" where
  "process_image_at env cfg image_path output_timestamp =
     (case loader_load env image_path of
        Inl e \<Rightarrow> Inl e
      | Inr img \<Rightarrow>
          (let timestamp = (case output_timestamp of
                              Some t \<Rightarrow> if t \<noteq> [] then t else clock env image_path
                            | None \<Rightarrow> clock env image_path)
           in process_types env cfg img timestamp [PROTAN, DEUTAN, TRITAN, GRAYSCALE] []))"

text \<open>The call without a timestamp, the only one this repository makes.\<close>

definition process_image :: "collaborators \<Rightarrow> SimulationConfig \<Rightarrow> path \<Rightarrow> string + outputs" where
  "process_image env cfg image_path = process_image_at env cfg image_path None"

section \<open>Batch processing (core/simulator.py)\<close>

text \<open>
  The input list holds \<open>Path\<close> values: an element given as a string is turned into
  one (\<open>Path(path)\<close>) before it is processed or used as a key. The result
  dictionary maps an input path to its result or to \<open>None\<close>, the marker of a
  failed item. \<open>BatchProcessingError\<close> carries \<open>failed_items\<close> and
  \<open>success_count\<close>; \<open>ValueError\<close> is what \<open>range\<close> raises for a zero step.
\<close>

type_synonym batch_result = "path \<rightharpoonup> item_result option"

datatype batch_error = BatchProcessingError "path list" nat | ValueError

text \<open>The loop of \<open>CVDSimulator.process_batch\<close> over the input paths, on the state
  \<open>(results, failed, success_count)\<close>.\<close>

fun batch_loop ::
  "collaborators \<Rightarrow> SimulationConfig \<Rightarrow> path list \<Rightarrow> batch_result \<times> path list \<times> nat
     \<Rightarrow> batch_result \<times> path list \<times> nat" where
  "batch_loop env cfg [] st = st"
| "batch_loop env cfg (p # rest) (results, failed, succeeded) =
     (case process_image env cfg p of
        Inr result \<Rightarrow>
          batch_loop env cfg rest (results(p \<mapsto> Some (AllTypes result)), failed, succeeded + 1)
      | Inl e \<Rightarrow>
          batch_loop env cfg rest (results(p \<mapsto> None), failed @ [p], succeeded))"

text \<open>The report after the loop, shared word for word by \<open>process_batch\<close> and
  \<open>process_batch_parallel\<close>: raise only when some item failed and none succeeded.\<close>

definition report :: "batch_result \<times> path list \<times> nat \<Rightarrow> batch_error + batch_result" where
  "report st =
     (case st of (results, failed, succeeded) \<Rightarrow>
        if failed \<noteq> [] then
          (if succeeded = 0 then Inl (BatchProcessingError failed 0) else Inr results)
        else Inr results)"

text \<open>\<open>CVDSimulator.process_batch\<close>. Its worker count is computed and logged only,
  see \<open>effective_workers\<close> below.\<close>

definition process_batch :: "collaborators \<Rightarrow> SimulationConfig \<Rightarrow> path list \<Rightarrow> batch_error + batch_result" where
  "process_batch env cfg image_paths =
     (if image_paths = [] then Inr Map.empty
      else report (batch_loop env cfg image_paths (Map.empty, [], 0)))"

text \<open>The two worker functions: each catches every exception and returns \<open>None\<close>.\<close>

definition process_single_image :: "collaborators \<Rightarrow> SimulationConfig \<Rightarrow> path \<Rightarrow> item_result option" where
  "process_single_image env cfg image_path =
     (case process_image env cfg image_path of
        Inl e \<Rightarrow> None
      | Inr result \<Rightarrow> Some (AllTypes result))"

definition process_single_image_with_type ::
  "collaborators \<Rightarrow> SimulationConfig \<Rightarrow> CVDType \<Rightarrow> path \<Rightarrow> item_result option" where
  "process_single_image_with_type env cfg cvd_type image_path =
     (case loader_load env image_path of
        Inl e \<Rightarrow> None
      | Inr img \<Rightarrow>
          (case simulate env cfg img cvd_type of
             Inl e \<Rightarrow> None
           | Inr simulated \<Rightarrow>
               (case save env cfg (clock env image_path) simulated cvd_type None None of
                  Inl e \<Rightarrow> None
                | Inr output_path \<Rightarrow> Some (OneType output_path))))"

text \<open>The choice of \<open>process_func\<close> in \<open>process_batch_parallel\<close>; a member of
  \<open>CVDType\<close> is always truthy, so only \<open>None\<close> selects all types.\<close>

definition process_func :: "collaborators \<Rightarrow> SimulationConfig \<Rightarrow> CVDType option \<Rightarrow> path \<Rightarrow> item_result option" where
  "process_func env cfg cvd_type =
     (case cvd_type of
        Some t \<Rightarrow> process_single_image_with_type env cfg t
      | None \<Rightarrow> process_single_image env cfg)"

text \<open>The collection loop over the completed futures, in completion order. A future
  whose \<open>result()\<close> raises is recorded exactly like one that returned \<open>None\<close>.\<close>

fun collect :: "unit_of_work list \<Rightarrow> batch_result \<times> path list \<times> nat \<Rightarrow> batch_result \<times> path list \<times> nat" where
  "collect [] st = st"
| "collect ((p, Some result) # rest) (results, failed, succeeded) =
     collect rest (results(p \<mapsto> Some result), failed, succeeded + 1)"
| "collect ((p, None) # rest) (results, failed, succeeded) =
     collect rest (results(p \<mapsto> None), failed @ [p], succeeded)"

text \<open>\<open>AsyncCVDSimulator.process_batch_parallel\<close>, for a simulator whose
  \<open>max_workers\<close> attribute is \<open>workers\<close>: one unit is submitted per input path, and
  the units are collected as they complete. The progress callback, called after
  each unit for its effect, is left out.\<close>

definition process_batch_parallel ::
  "collaborators \<Rightarrow> int \<Rightarrow> SimulationConfig \<Rightarrow> path list \<Rightarrow> CVDType option \<Rightarrow> batch_error + batch_result" where
  "process_batch_parallel env workers cfg image_paths cvd_type =
     (if image_paths = [] then Inr Map.empty
      else
        let futures = map (\<lambda>p. (p, process_func env cfg cvd_type p)) image_paths
        in report (collect (executor env workers futures) (Map.empty, [], 0)))"

text \<open>\<open>range(0, total, step)\<close> for a step other than zero, and the list of chunks
  \<open>[image_paths[i : i + chunk_size] for i in range(0, total, chunk_size)]\<close>. The
  indices are not negative, so the slice is \<open>take\<close> after \<open>drop\<close>.\<close>

definition py_range :: "nat \<Rightarrow> int \<Rightarrow> nat list" where
  "py_range total_count step =
     (if 0 < step then map (\<lambda>k. k * nat step) [0 ..< (total_count + nat step - 1) div nat step]
      else [])"

definition chunks :: "'a list \<Rightarrow> int \<Rightarrow> 'a list list" where
  "chunks image_paths chunk_size =
     map (\<lambda>i. take (nat chunk_size) (drop i image_paths)) (py_range (length image_paths) chunk_size)"

text \<open>The loop of \<open>process_batch_chunked\<close>: an exception of the call for one chunk
  is not caught; \<open>all_results.update\<close> is \<open>++\<close>.\<close>

fun chunk_loop ::
  "collaborators \<Rightarrow> int \<Rightarrow> SimulationConfig \<Rightarrow> CVDType option \<Rightarrow> path list list \<Rightarrow> batch_result
     \<Rightarrow> batch_error + batch_result" where
  "chunk_loop env workers cfg cvd_type [] all_results = Inr all_results"
| "chunk_loop env workers cfg cvd_type (chunk # rest) all_results =
     (case process_batch_parallel env workers cfg chunk cvd_type of
        Inl e \<Rightarrow> Inl e
      | Inr chunk_results \<Rightarrow>
          chunk_loop env workers cfg cvd_type rest (all_results ++ chunk_results))"

definition process_batch_chunked ::
  "collaborators \<Rightarrow> int \<Rightarrow> SimulationConfig \<Rightarrow> path list \<Rightarrow> int \<Rightarrow> CVDType option
     \<Rightarrow> batch_error + batch_result" where
  "process_batch_chunked env workers cfg image_paths chunk_size cvd_type =
     (if image_paths = [] then Inr Map.empty
      else if chunk_size = 0 then Inl ValueError
      else chunk_loop env workers cfg cvd_type (chunks image_paths chunk_size) Map.empty)"

text \<open>A pool does its work when, for the given worker count, the completed units are
  the submitted ones in some order. (The constructor of the pool of the standard
  library refuses a worker count below 1; such a pool does not do its work.)\<close>

definition runs_all :: "collaborators \<Rightarrow> int \<Rightarrow> bool" where
  "runs_all env workers = (\<forall>us. mset (executor env workers us) = mset us)"

text \<open>An example environment: only \<open>a.png\<close> and \<open>c.png\<close> load; the luminance is the
  ITU-R 601-2 luma transform in the fixed-point form Pillow computes it; paths
  are canonical as they are, directories can be made and images written; the clock
  stands still; the pool completes the units in reverse order of submission.\<close>

definition example_env :: collaborators where
  "example_env =
     \<lparr> loader_load = (\<lambda>p. if p = ''a.png'' \<or> p = ''c.png''
                           then Inr \<lparr> width = 1, height = 1, pixels = [(255, 0, 0)] \<rparr>
                           else Inl ''File not found''),
       luminance = (\<lambda>(r, g, b). (r * 19595 + g * 38470 + b * 7471 + 32768) div 65536),
       simulate_cvd = (\<lambda>a t s img. Inr img),
       resolve_path = (\<lambda>p. p),
       mkdir = (\<lambda>d. Inr ()),
       image_save = (\<lambda>p img settings. Inr ()),
       clock = (\<lambda>p. ''20260212_153045''),
       executor = (\<lambda>w us. rev us) \<rparr>"

text \<open>The mapping every entry point is compared with: each supplied path keyed
  once, with the outcome of its unit of work.\<close>

definition result_map :: "(path \<Rightarrow> item_result option) \<Rightarrow> path list \<Rightarrow> batch_result" where
  "result_map f ps = (\<lambda>p. if p \<in> set ps then Some (f p) else None)"

section \<open>Worker count (core/simulator.py)\<close>

text \<open>
  \<open>max_workers or self.config.max_workers or cpu_count()\<close>, the expression of both
  \<open>CVDSimulator.process_batch\<close> and \<open>AsyncCVDSimulator.__init__\<close>: Python's \<open>or\<close>
  yields its left operand when that is truthy, and \<open>None\<close> and \<open>0\<close> are falsy.
\<close>

fun first_truthy :: "int option list \<Rightarrow> int \<Rightarrow> int" where
  "first_truthy [] last_operand = last_operand"
| "first_truthy (None # rest) last_operand = first_truthy rest last_operand"
| "first_truthy (Some n # rest) last_operand =
     (if n \<noteq> 0 then n else first_truthy rest last_operand)"

definition effective_workers :: "int option \<Rightarrow> SimulationConfig \<Rightarrow> int \<Rightarrow> int" where
  "effective_workers max_workers_arg cfg cpus =
     first_truthy [max_workers_arg, max_workers cfg] cpus"

text \<open>\<open>get_optimal_workers\<close>. The memory-based limit is the integer part of a
  floating-point quotient and is taken as given.\<close>

definition get_optimal_workers :: "int \<Rightarrow> int \<Rightarrow> int \<Rightarrow> int" where
  "get_optimal_workers memory_based_limit available_cpus image_count =
     (let optimal = min memory_based_limit (min available_cpus image_count)
      in max 1 optimal)"

text \<open>The worker count as the specification words it: the configured value, else
  the override, else the platform default; then clamped to the number of input
  paths and to at least 1.\<close>

definition spec_worker_count :: "SimulationConfig \<Rightarrow> int option \<Rightarrow> int \<Rightarrow> nat \<Rightarrow> int" where
  "spec_worker_count cfg override cpus n_paths =
     max 1 (min (int n_paths)
       (case max_workers cfg of
          Some w \<Rightarrow> w
        | None \<Rightarrow> (case override of Some w \<Rightarrow> w | None \<Rightarrow> cpus)))"

section \<open>Metadata sidecar (utils/metadata.py)\<close>

text \<open>
  The values a \<open>dict[str, Any]\<close> may hold: \<open>None\<close>, booleans, integers, finite
  floats, strings, lists, tuples, dictionaries with string keys, and any other
  object, which is kept with the string \<open>str\<close> gives for it. A JSON document has no
  tuples and no other objects.
\<close>

datatype pyval =
    VNone
  | VBool bool
  | VInt int
  | VFloat real
  | VStr string
  | VList "pyval list"
  | VTuple "pyval list"
  | VDict "(string \<times> pyval) list"
  | VObj string

datatype json =
    JNull
  | JBool bool
  | JInt int
  | JFloat real
  | JStr string
  | JList "json list"
  | JObj "(string \<times> json) list"

text \<open>The dataclass \<open>SimulationMetadata\<close>; its field \<open>notes\<close> is \<open>notes_text\<close> here.\<close>

record SimulationMetadata =
  version :: string
  timestamp :: string
  input_file :: string
  input_checksum :: string
  output_files :: "(string \<times> string) list"
  config :: "(string \<times> pyval) list"
  system_info :: "(string \<times> string) list"
  execution_time_ms :: real
  notes_text :: string

text \<open>\<open>json.dump(data, f, default=str)\<close>: a tuple is written as a list, and a value
  the encoder does not know is replaced by \<open>str\<close> of it. \<open>json.load\<close> reads a
  document back into plain Python values.\<close>

primrec to_json :: "pyval \<Rightarrow> json" where
  "to_json VNone = JNull"
| "to_json (VBool b) = JBool b"
| "to_json (VInt i) = JInt i"
| "to_json (VFloat x) = JFloat x"
| "to_json (VStr s) = JStr s"
| "to_json (VList vs) = JList (map to_json vs)"
| "to_json (VTuple vs) = JList (map to_json vs)"
| "to_json (VDict kvs) = JObj (map (map_prod id to_json) kvs)"
| "to_json (VObj s) = JStr s"

primrec of_json :: "json \<Rightarrow> pyval" where
  "of_json JNull = VNone"
| "of_json (JBool b) = VBool b"
| "of_json (JInt i) = VInt i"
| "of_json (JFloat x) = VFloat x"
| "of_json (JStr s) = VStr s"
| "of_json (JList js) = VList (map of_json js)"
| "of_json (JObj kjs) = VDict (map (map_prod id of_json) kjs)"

text \<open>The values JSON has a form of its own for.\<close>

primrec json_native :: "pyval \<Rightarrow> bool" where
  "json_native VNone = True"
| "json_native (VBool b) = True"
| "json_native (VInt i) = True"
| "json_native (VFloat x) = True"
| "json_native (VStr s) = True"
| "json_native (VList vs) = list_all json_native vs"
| "json_native (VTuple vs) = False"
| "json_native (VDict kvs) = list_all (pred_prod (\<lambda>k. True) json_native) kvs"
| "json_native (VObj s) = False"

definition str_dict :: "(string \<times> string) list \<Rightarrow> json" where
  "str_dict d = JObj (map (map_prod id JStr) d)"

text \<open>\<open>export_metadata\<close>: the nine keys in the order of the source, written to the
  file system, a map from paths to documents.\<close>

definition metadata_document :: "SimulationMetadata \<Rightarrow> json" where
  "metadata_document metadata =
     JObj [(''version'', JStr (version metadata)),
           (''timestamp'', JStr (timestamp metadata)),
           (''input_file'', JStr (input_file metadata)),
           (''input_checksum'', JStr (input_checksum metadata)),
           (''output_files'', str_dict (output_files metadata)),
           (''config'', to_json (VDict (config metadata))),
           (''system_info'', str_dict (system_info metadata)),
           (''execution_time_ms'', JFloat (execution_time_ms metadata)),
           (''notes'', JStr (notes_text metadata))]"

definition export_metadata :: "SimulationMetadata \<Rightarrow> path \<Rightarrow> (path \<rightharpoonup> json) \<Rightarrow> (path \<rightharpoonup> json)" where
  "export_metadata metadata output_path fs = fs(output_path \<mapsto> metadata_document metadata)"

text \<open>
  \<open>load_metadata\<close>: a missing file and a missing required key raise. Python does
  not check the loaded values against the annotations of the dataclass; a document
  whose values are not of the annotated types gives an object this typed record
  cannot hold, reported here as \<open>NotARecord\<close>.
\<close>

datatype load_error = FileNotFoundError | KeyError string | NotARecord

fun as_str :: "json \<Rightarrow> load_error + string" where
  "as_str (JStr s) = Inr s"
| "as_str j = Inl NotARecord"

fun as_number :: "json \<Rightarrow> load_error + real" where
  "as_number (JFloat x) = Inr x"
| "as_number (JInt i) = Inr (real_of_int i)"
| "as_number j = Inl NotARecord"

fun as_str_items :: "(string \<times> json) list \<Rightarrow> load_error + (string \<times> string) list" where
  "as_str_items [] = Inr []"
| "as_str_items ((k, JStr s) # rest) =
     (case as_str_items rest of Inl e \<Rightarrow> Inl e | Inr d \<Rightarrow> Inr ((k, s) # d))"
| "as_str_items ((k, j) # rest) = Inl NotARecord"

fun as_str_dict :: "json \<Rightarrow> load_error + (string \<times> string) list" where
  "as_str_dict (JObj kjs) = as_str_items kjs"
| "as_str_dict j = Inl NotARecord"

fun as_dict :: "json \<Rightarrow> load_error + (string \<times> pyval) list" where
  "as_dict (JObj kjs) = Inr (map (map_prod id of_json) kjs)"
| "as_dict j = Inl NotARecord"

text \<open>\<open>data[key]\<close> and \<open>data.get(key, default)\<close>, each followed by the reading
  of the value at the annotated type.\<close>

definition required :: "(string \<times> json) list \<Rightarrow> string \<Rightarrow> (json \<Rightarrow> load_error + 'a) \<Rightarrow> load_error + 'a" where
  "required data key as_type =
     (case map_of data key of None \<Rightarrow> Inl (KeyError key) | Some j \<Rightarrow> as_type j)"

definition optional :: "(string \<times> json) list \<Rightarrow> string \<Rightarrow> 'a \<Rightarrow> (json \<Rightarrow> load_error + 'a) \<Rightarrow> load_error + 'a" where
  "optional data key default_value as_type =
     (case map_of data key of None \<Rightarrow> Inr default_value | Some j \<Rightarrow> as_type j)"

definition bind_result :: "load_error + 'a \<Rightarrow> ('a \<Rightarrow> load_error + 'b) \<Rightarrow> load_error + 'b" where
  "bind_result r f = (case r of Inl e \<Rightarrow> Inl e | Inr x \<Rightarrow> f x)"

definition read_record :: "(string \<times> json) list \<Rightarrow> load_error + SimulationMetadata" where
  "read_record data =
     bind_result (required data ''version'' as_str) (\<lambda>v.
     bind_result (required data ''timestamp'' as_str) (\<lambda>t.
     bind_result (required data ''input_file'' as_str) (\<lambda>i.
     bind_result (required data ''input_checksum'' as_str) (\<lambda>c.
     bind_result (optional data ''output_files'' [] as_str_dict) (\<lambda>out.
     bind_result (optional data ''config'' [] as_dict) (\<lambda>conf.
     bind_result (optional data ''system_info'' [] as_str_dict) (\<lambda>sys.
     bind_result (optional data ''execution_time_ms'' 0 as_number) (\<lambda>ms.
     bind_result (optional data ''notes'' [] as_str) (\<lambda>n.
       Inr \<lparr> version = v, timestamp = t, input_file = i, input_checksum = c,
             output_files = out, config = conf, system_info = sys,
             execution_time_ms = ms, notes_text = n \<rparr>)))))))))"

definition load_metadata :: "path \<Rightarrow> (path \<rightharpoonup> json) \<Rightarrow> load_error + SimulationMetadata" where
  "load_metadata metadata_path fs =
     (case fs metadata_path of
        None \<Rightarrow> Inl FileNotFoundError
      | Some (JObj data) \<Rightarrow> read_record data
      | Some j \<Rightarrow> Inl NotARecord)"

text \<open>A record as \<open>create_metadata\<close> builds it from \<open>config.to_dict()\<close>, and one whose
  configuration snapshot holds a \<open>Path\<close> object.\<close>

definition example_metadata :: SimulationMetadata where
  "example_metadata =
     \<lparr> version = ''1.1.1'', timestamp = ''2026-02-12T15:30:45Z'', input_file = ''input.jpg'',
       input_checksum = ''ab12'', output_files = [(''PROTAN'', ''outputs/protan_image.jpg'')],
       config = [(''algorithm'', VStr ''BRETTEL_1997''), (''severity'', VFloat (8 / 10)),
                 (''output_directory'', VStr ''outputs''), (''quality'', VInt 95),
                 (''optimize'', VBool True), (''max_workers'', VNone)],
       system_info = [(''platform'', ''Linux'')], execution_time_ms = 12, notes_text = [] \<rparr>"

definition path_valued_metadata :: SimulationMetadata where
  "path_valued_metadata = example_metadata\<lparr> config := [(''output_directory'', VObj ''outputs'')] \<rparr>"

section \<open>Command line (interfaces/cli.py)\<close>

text \<open>
  The fields of the parsed arguments that \<open>main\<close> reads. What \<open>main\<close> reads from
  outside beyond the simulator, as parameters: \<open>parser.parse_args\<close> of \<open>argparse\<close>,
  which gives the parsed arguments or leaves with an exit status (0 for
  \<open>--version\<close> and \<open>--help\<close>, 2 for arguments it does not accept); the opening of
  the log file by \<open>logging.FileHandler\<close>; the table of presets behind \<open>get_preset\<close>;
  the construction of the \<open>CVDSimulator\<close>; and the writing of the metadata sidecar.
\<close>

record parsed_args =
  parsed_list_algorithms :: bool
  parsed_list_types :: bool
  parsed_list_presets :: bool
  parsed_images :: "string list"
  parsed_preset :: "string option"
  parsed_algorithm :: Algorithm
  parsed_severity :: real
  parsed_format :: OutputFormat
  parsed_output :: string
  parsed_quality :: int
  parsed_verbose :: bool
  parsed_log_level :: LogLevel
  parsed_log_file :: "string option"
  parsed_type :: "CVDType option"
  parsed_export_metadata :: bool

record cli_collaborators =
  parse_args :: "string list \<Rightarrow> int + parsed_args"
  open_log_file :: "string \<Rightarrow> string + unit"
  presets :: "string \<Rightarrow> SimulationConfig option"
  init_simulator :: "SimulationConfig \<Rightarrow> string + unit"
  write_sidecar :: "path \<Rightarrow> outputs \<Rightarrow> string + unit"

text \<open>What \<open>main\<close> does: it returns an exit code, leaves through \<open>SystemExit\<close>, or
  lets another exception escape; \<open>parser.error\<close> of \<open>argparse\<close> prints the usage
  and exits with status 2.\<close>

datatype exit = Returns int | SystemExit int | Raises string

text \<open>\<open>setup_logging\<close> (utils/logging_config.py) as \<open>main\<close> calls it: the console
  handler is always set up; with a log file its directory is made and the file is
  opened, and a failure of that is not caught. \<open>main\<close> passes a log file only for
  a non-empty \<open>--log-file\<close>.\<close>

definition setup_logging :: "cli_collaborators \<Rightarrow> LogLevel \<Rightarrow> string option \<Rightarrow> string + unit" where
  "setup_logging cli level log_file =
     (case log_file of
        None \<Rightarrow> Inr ()
      | Some f \<Rightarrow> open_log_file cli f)"

text \<open>The configuration block of \<open>main\<close>: a preset with the output directory
  replaced, or a new \<open>SimulationConfig\<close> from the arguments and the defaults. Every
  exception in it is caught and makes \<open>main\<close> return 1.\<close>

definition build_config :: "cli_collaborators \<Rightarrow> parsed_args \<Rightarrow> string + SimulationConfig" where
  "build_config cli parsed =
     (case parsed_preset parsed of
        Some name \<Rightarrow>
          (case presets cli name of
             None \<Rightarrow> Inl ''Unknown preset''
           | Some c \<Rightarrow> Inr (c\<lparr>output_directory := PathValue (parsed_output parsed)\<rparr>))
      | None \<Rightarrow>
          (case new_SimulationConfig
                  (default_config
                     \<lparr> algorithm := parsed_algorithm parsed,
                       severity := parsed_severity parsed,
                       output_format := parsed_format parsed,
                       output_directory := PathValue (parsed_output parsed),
                       quality := parsed_quality parsed,
                       log_level := (if parsed_verbose parsed then DEBUG
                                     else parsed_log_level parsed) \<rparr>) of
             Inl (ValidationError field) \<Rightarrow> Inl field
           | Inr c \<Rightarrow> Inr c))"

text \<open>\<open>process_single_image\<close> of the command line: the work inside its \<open>try\<close>, and
  the pair it returns; every exception gives \<open>(0, None)\<close>.\<close>

definition single_image_work ::
  "collaborators \<Rightarrow> cli_collaborators \<Rightarrow> SimulationConfig \<Rightarrow> CVDType option \<Rightarrow> bool \<Rightarrow> path \<Rightarrow> string + outputs" where
  "single_image_work env cli cfg cvd_type export_metadata_flag image_path =
     (case (case cvd_type of
              Some t \<Rightarrow>
                (case loader_load env image_path of
                   Inl e \<Rightarrow> Inl e
                 | Inr img \<Rightarrow>
                     (case simulate env cfg img t of
                        Inl e \<Rightarrow> Inl e
                      | Inr simulated \<Rightarrow>
                          (case save env cfg (clock env image_path) simulated t None None of
                             Inl e \<Rightarrow> Inl e
                           | Inr output_path \<Rightarrow> Inr [(t, output_path)])))
            | None \<Rightarrow> process_image env cfg image_path) of
        Inl e \<Rightarrow> Inl e
      | Inr results \<Rightarrow>
          if export_metadata_flag then
            (case write_sidecar cli image_path results of
               Inl e \<Rightarrow> Inl e
             | Inr u \<Rightarrow> Inr results)
          else Inr results)"

definition cli_process_single_image ::
  "collaborators \<Rightarrow> cli_collaborators \<Rightarrow> SimulationConfig \<Rightarrow> CVDType option \<Rightarrow> bool \<Rightarrow> path
     \<Rightarrow> nat \<times> outputs option" where
  "cli_process_single_image env cli cfg cvd_type export_metadata_flag image_path =
     (case single_image_work env cli cfg cvd_type export_metadata_flag image_path of
        Inl e \<Rightarrow> (0, None)
      | Inr results \<Rightarrow> (1, Some results))"

text \<open>The loop of \<open>main\<close> over the image paths; the variant with a progress bar
  runs the same body.\<close>

fun count_successes ::
  "collaborators \<Rightarrow> cli_collaborators \<Rightarrow> SimulationConfig \<Rightarrow> CVDType option \<Rightarrow> bool \<Rightarrow> path list \<Rightarrow> nat \<Rightarrow> nat" where
  "count_successes env cli cfg cvd_type flag [] success_count = success_count"
| "count_successes env cli cfg cvd_type flag (image_path # rest) success_count =
     count_successes env cli cfg cvd_type flag rest
       (success_count + fst (cli_process_single_image env cli cfg cvd_type flag image_path))"

text \<open>The log level and the log file \<open>main\<close> passes to \<open>setup_logging\<close>:
  \<open>--verbose\<close> means \<open>DEBUG\<close>, and an empty \<open>--log-file\<close> means none.\<close>

definition log_level_of :: "parsed_args \<Rightarrow> LogLevel" where
  "log_level_of parsed = (if parsed_verbose parsed then DEBUG else parsed_log_level parsed)"

definition log_file_of :: "parsed_args \<Rightarrow> string option" where
  "log_file_of parsed =
     (case parsed_log_file parsed of
        Some f \<Rightarrow> if f \<noteq> [] then Some f else None
      | None \<Rightarrow> None)"

text \<open>\<open>main\<close>, from the argument list on.\<close>

definition main :: "collaborators \<Rightarrow> cli_collaborators \<Rightarrow> string list \<Rightarrow> exit" where
  "main env cli args =
     (case parse_args cli args of
        Inl status \<Rightarrow> SystemExit status
      | Inr parsed \<Rightarrow>
          if parsed_list_algorithms parsed then Returns 0
          else if parsed_list_types parsed then Returns 0
          else if parsed_list_presets parsed then Returns 0
          else if parsed_images parsed = [] then SystemExit 2
          else
            (let log_level = log_level_of parsed;
                 log_file = log_file_of parsed
             in case setup_logging cli log_level log_file of
                  Inl e \<Rightarrow> Raises e
                | Inr u \<Rightarrow>
                    (case build_config cli parsed of
                       Inl e \<Rightarrow> Returns 1
                     | Inr cfg \<Rightarrow>
                         (case init_simulator cli cfg of
                            Inl e \<Rightarrow> Returns 1
                          | Inr u \<Rightarrow>
                              (let image_paths = parsed_images parsed;
                                   success_count =
                                     count_successes env cli cfg (parsed_type parsed)
                                       (parsed_export_metadata parsed) image_paths 0;
                                   total_count = length image_paths
                               in if success_count = total_count then Returns 0
                                  else Returns 1)))))"

text \<open>Example arguments, and a stand-in for the parser on a few command lines: it
  leaves for \<open>--version\<close> and for a quality that is no number, knows the listing
  options, and takes every other list as the image paths.\<close>

definition example_args :: parsed_args where
  "example_args =
     \<lparr> parsed_list_algorithms = False, parsed_list_types = False, parsed_list_presets = False,
       parsed_images = [], parsed_preset = None, parsed_algorithm = BRETTEL_1997,
       parsed_severity = 8 / 10, parsed_format = JPEG, parsed_output = ''./outputs'',
       parsed_quality = 95, parsed_verbose = False, parsed_log_level = INFO,
       parsed_log_file = None, parsed_type = None, parsed_export_metadata = False \<rparr>"

definition example_parse :: "string list \<Rightarrow> int + parsed_args" where
  "example_parse args =
     (if args = [''--version''] then Inl 0
      else if args = [''a.png'', ''-q'', ''abc''] then Inl 2
      else if args = [''--list-types''] then Inr (example_args\<lparr>parsed_list_types := True\<rparr>)
      else if args = [''--list-algorithms'', ''b.png'']
        then Inr (example_args\<lparr>parsed_list_algorithms := True, parsed_images := [''b.png'']\<rparr>)
      else if args = [''a.png'', ''--log-file'', ''/'']
        then Inr (example_args\<lparr>parsed_images := [''a.png''], parsed_log_file := Some ''/''\<rparr>)
      else Inr (example_args\<lparr>parsed_images := args\<rparr>))"

definition example_cli :: cli_collaborators where
  "example_cli =
     \<lparr> parse_args = example_parse,
       open_log_file = (\<lambda>f. if f = ''/'' then Inl ''IsADirectoryError'' else Inr ()),
       presets = (\<lambda>name. if name = ''web_design'' then Some default_config else None),
       init_simulator = (\<lambda>c. Inr ()),
       write_sidecar = (\<lambda>p r. Inr ()) \<rparr>"

section \<open>Properties of the configuration\<close>

text \<open>
  Claim C4. Construction of a \<open>SimulationConfig\<close> is atomic. Whenever one field is
  out of range (severity outside [0,1], quality outside [1,95], a non-positive
  \<open>max_image_size\<close>, a non-positive \<open>max_image_dimension\<close>, or a supplied worker count
  below 1) construction fails with a \<open>ValidationError\<close> and yields no instance.
  Conversely, when every field satisfies its constraint (the output directory being
  a \<open>Path\<close> is the constraint of that field) construction succeeds and yields exactly
  the requested instance.
\<close>

theorem config_construction_atomic:
  "((severity c < 0 \<or> 1 < severity c \<or> quality c < 1 \<or> 95 < quality c
      \<or> max_image_size c \<le> 0 \<or> max_image_dimension c \<le> 0
      \<or> (\<exists>w. max_workers c = Some w \<and> w < 1))
     \<longrightarrow> (\<exists>e. new_SimulationConfig c = Inl e))
   \<and> ((0 \<le> severity c \<and> severity c \<le> 1 \<and> 1 \<le> quality c \<and> quality c \<le> 95
       \<and> is_Path (output_directory c) \<and> 0 < max_image_size c \<and> 0 < max_image_dimension c
       \<and> (\<forall>w. max_workers c = Some w \<longrightarrow> 1 \<le> w))
     \<longrightarrow> new_SimulationConfig c = Inr c)"
  by (auto simp: new_SimulationConfig_def validate_def split: option.splits)

theorem config_construction_atomic_witness:
  "new_SimulationConfig default_config = Inr default_config
   \<and> (\<exists>e. new_SimulationConfig (default_config\<lparr>severity := 3 / 2\<rparr>) = Inl e)
   \<and> (\<exists>e. new_SimulationConfig (default_config\<lparr>max_workers := Some 0\<rparr>) = Inl e)"
  using config_construction_atomic [of default_config]
    config_construction_atomic [of "default_config\<lparr>severity := 3 / 2\<rparr>"]
    config_construction_atomic [of "default_config\<lparr>max_workers := Some 0\<rparr>"]
  by (simp add: default_config_def)

section \<open>Properties of batch processing\<close>

subsection \<open>The collection loop and the report\<close>

lemma collect_results:
  "\<forall>u\<in>set us. snd u = f (fst u) \<Longrightarrow>
   fst (collect us (res, failed, n)) = (\<lambda>p. if p \<in> fst ` set us then Some (f p) else res p)"
proof (induction us arbitrary: res failed n)
  case Nil
  then show ?case by simp
next
  case (Cons u us)
  obtain p r where u: "u = (p, r)" by (cases u)
  from Cons.prems have tl: "\<forall>u\<in>set us. snd u = f (fst u)" and hd: "r = f p"
    by (simp_all add: u)
  show ?case
    by (cases r) (use hd in \<open>auto simp: u Cons.IH [OF tl] fun_eq_iff\<close>)
qed

lemma collect_failed:
  "fst (snd (collect us (res, failed, n))) = failed @ map fst (filter (\<lambda>u. snd u = None) us)"
proof (induction us arbitrary: res failed n)
  case Nil
  then show ?case by simp
next
  case (Cons u us)
  obtain p r where u: "u = (p, r)" by (cases u)
  show ?case by (cases r) (simp_all add: u Cons.IH)
qed

lemma collect_count:
  "snd (snd (collect us (res, failed, n))) = n + length (filter (\<lambda>u. snd u \<noteq> None) us)"
proof (induction us arbitrary: res failed n)
  case Nil
  then show ?case by simp
next
  case (Cons u us)
  obtain p r where u: "u = (p, r)" by (cases u)
  show ?case by (cases r) (simp_all add: u Cons.IH)
qed

lemma report_parts:
  "report st =
     (if fst (snd st) \<noteq> [] \<and> snd (snd st) = 0
      then Inl (BatchProcessingError (fst (snd st)) 0) else Inr (fst st))"
  by (cases st) (simp add: report_def)

lemma batch_loop_collect:
  "batch_loop env cfg ps st = collect (map (\<lambda>p. (p, process_single_image env cfg p)) ps) st"
proof (induction ps arbitrary: st)
  case Nil
  then show ?case by simp
next
  case (Cons p ps)
  obtain res failed n where st: "st = (res, failed, n)" by (cases st)
  show ?case
    by (cases "process_image env cfg p") (simp_all add: st process_single_image_def Cons.IH)
qed

lemma report_collect:
  assumes perm: "mset us = mset (map (\<lambda>p. (p, f p)) ps)"
  shows "report (collect us (Map.empty, [], 0)) =
     (if ps \<noteq> [] \<and> (\<forall>p\<in>set ps. f p = None) then Inl (BatchProcessingError (map fst us) 0)
      else Inr (result_map f ps))"
proof -
  let ?st = "collect us (Map.empty, [], 0)"
  have set_us: "set us = (\<lambda>p. (p, f p)) ` set ps"
    using perm by (metis set_map set_mset_mset)
  have cons: "\<forall>u\<in>set us. snd u = f (fst u)"
    using set_us by auto
  have fst_us: "fst ` set us = set ps"
    using set_us by force
  have res: "fst ?st = result_map f ps"
    using collect_results [OF cons, of Map.empty "[]" 0] by (simp add: fst_us result_map_def)
  have failed: "fst (snd ?st) = map fst (filter (\<lambda>u. snd u = None) us)"
    by (simp add: collect_failed)
  have count: "snd (snd ?st) = length (filter (\<lambda>u. snd u \<noteq> None) us)"
    by (simp add: collect_count)
  show ?thesis
  proof (cases "ps \<noteq> [] \<and> (\<forall>p\<in>set ps. f p = None)")
    case True
    then have all_none: "\<forall>u\<in>set us. snd u = None" using set_us by auto
    have ne: "us \<noteq> []" using True set_us by auto
    have f1: "fst (snd ?st) = map fst us" using all_none by (simp add: failed)
    have f2: "snd (snd ?st) = 0" using all_none by (simp add: count)
    show ?thesis using True ne by (simp add: report_parts f1 f2)
  next
    case False
    show ?thesis
    proof (cases "ps = []")
      case True
      then have "us = []" using perm by simp
      then show ?thesis using True by (simp add: report_def result_map_def)
    next
      case ne: False
      with False obtain p where p: "p \<in> set ps" "f p \<noteq> None" by auto
      then have "(p, f p) \<in> set us" using set_us by auto
      then have "filter (\<lambda>u. snd u \<noteq> None) us \<noteq> []"
        using p(2) by (force simp: filter_empty_conv)
      then have "snd (snd ?st) \<noteq> 0" unfolding count by simp
      then show ?thesis using False by (simp add: report_parts res)
    qed
  qed
qed

subsection \<open>Chunks and the three entry points\<close>

lemma range_index_lt:
  fixes n len j :: nat
  assumes "0 < n" "j < (len + n - 1) div n"
  shows "j * n < len"
proof -
  have "Suc j \<le> (len + n - 1) div n" using assms(2) by simp
  then have "Suc j * n \<le> (len + n - 1) div n * n" by (rule mult_le_mono1)
  also have "\<dots> \<le> len + n - 1" by simp
  finally show ?thesis using assms(1) by simp
qed

lemma range_covers:
  fixes n len :: nat
  assumes "0 < n"
  shows "len \<le> (len + n - 1) div n * n"
proof -
  have "(len + n - 1) mod n < n" using assms by simp
  moreover have "(len + n - 1) div n * n + (len + n - 1) mod n = len + n - 1" by simp
  ultimately show ?thesis by linarith
qed

lemma concat_take_drop:
  "concat (map (\<lambda>j. take n (drop (j * n) xs)) [0 ..< m]) = take (m * n) xs"
proof (induction m)
  case 0
  then show ?case by simp
next
  case (Suc m)
  have "Suc m * n = m * n + n" by simp
  then have "take (Suc m * n) xs = take (m * n) xs @ take n (drop (m * n) xs)"
    by (simp only: take_add)
  then show ?case using Suc by simp
qed

lemma chunks_concat: "0 < k \<Longrightarrow> concat (chunks xs k) = xs"
  using range_covers [of "nat k" "length xs"]
  by (simp add: chunks_def py_range_def comp_def concat_take_drop)

lemma chunks_nonempty:
  assumes "0 < k" "c \<in> set (chunks xs k)"
  shows "c \<noteq> []"
proof -
  from assms obtain j where j: "j < (length xs + nat k - 1) div nat k"
    and c: "c = take (nat k) (drop (j * nat k) xs)"
    by (auto simp: chunks_def py_range_def)
  have "j * nat k < length xs" using range_index_lt [OF _ j] assms(1) by simp
  then show ?thesis using assms(1) by (simp add: c)
qed

lemma chunks_nonpositive: "k < 0 \<Longrightarrow> chunks xs k = []"
  by (simp add: chunks_def py_range_def)

lemma process_batch_eq:
  "process_batch env cfg ps =
     (if ps \<noteq> [] \<and> (\<forall>p\<in>set ps. process_single_image env cfg p = None)
      then Inl (BatchProcessingError ps 0)
      else Inr (result_map (process_single_image env cfg) ps))"
proof (cases "ps = []")
  case True
  then show ?thesis by (simp add: process_batch_def result_map_def)
next
  case False
  let ?us = "map (\<lambda>p. (p, process_single_image env cfg p)) ps"
  have "map fst ?us = ps" by (simp add: comp_def)
  then show ?thesis
    using False report_collect [of ?us "process_single_image env cfg" ps]
    by (simp add: process_batch_def batch_loop_collect)
qed

lemma process_batch_parallel_eq:
  assumes "runs_all env w"
  shows "\<exists>failed. mset failed = mset ps \<and>
     process_batch_parallel env w cfg ps t =
       (if ps \<noteq> [] \<and> (\<forall>p\<in>set ps. process_func env cfg t p = None)
        then Inl (BatchProcessingError failed 0)
        else Inr (result_map (process_func env cfg t) ps))"
proof (cases "ps = []")
  case True
  then show ?thesis by (simp add: process_batch_parallel_def result_map_def)
next
  case False
  let ?f = "process_func env cfg t"
  let ?us = "executor env w (map (\<lambda>p. (p, ?f p)) ps)"
  have perm: "mset ?us = mset (map (\<lambda>p. (p, ?f p)) ps)"
    using assms by (simp add: runs_all_def)
  have "mset (map fst ?us) = mset ps"
    using perm by (metis (no_types, lifting) mset_map map_map comp_def fst_conv map_idI)
  then show ?thesis
    using False report_collect [OF perm]
    by (intro exI [of _ "map fst ?us"]) (simp add: process_batch_parallel_def)
qed

lemma result_map_append:
  "(acc ++ result_map f xs) ++ result_map f ys = acc ++ result_map f (xs @ ys)"
  by (auto simp: fun_eq_iff map_add_def result_map_def)

lemma chunk_loop_succeeds:
  assumes "runs_all env w"
    and "\<forall>c\<in>set cs. c \<noteq> [] \<longrightarrow> (\<exists>p\<in>set c. process_func env cfg t p \<noteq> None)"
  shows "chunk_loop env w cfg t cs acc = Inr (acc ++ result_map (process_func env cfg t) (concat cs))"
  using assms(2)
proof (induction cs arbitrary: acc)
  case Nil
  then show ?case by (simp add: result_map_def)
next
  case (Cons c cs)
  obtain failed where c: "process_batch_parallel env w cfg c t =
       (if c \<noteq> [] \<and> (\<forall>p\<in>set c. process_func env cfg t p = None)
        then Inl (BatchProcessingError failed 0)
        else Inr (result_map (process_func env cfg t) c))"
    using process_batch_parallel_eq [OF assms(1)] by blast
  have ok: "\<not> (c \<noteq> [] \<and> (\<forall>p\<in>set c. process_func env cfg t p = None))"
    using Cons.prems by auto
  have c': "process_batch_parallel env w cfg c t = Inr (result_map (process_func env cfg t) c)"
    using c by (simp only: ok if_False)
  have "chunk_loop env w cfg t (c # cs) acc =
      chunk_loop env w cfg t cs (acc ++ result_map (process_func env cfg t) c)"
    by (simp add: c')
  also have "\<dots> = Inr ((acc ++ result_map (process_func env cfg t) c)
                     ++ result_map (process_func env cfg t) (concat cs))"
    using Cons.prems by (intro Cons.IH) simp
  finally show ?case by (simp add: result_map_append)
qed

subsection \<open>The example environment\<close>

lemma sanitize_safe: "set (sanitize_filename name) \<subseteq> set safe_chars \<union> {CHR ''_''}"
  by (auto simp: sanitize_filename_def Let_def safe_chars_def)

lemma sanitize_no_slash: "\<not> prefix ''/'' (sanitize_filename name)"
proof
  assume "prefix ''/'' (sanitize_filename name)"
  then have "CHR ''/'' \<in> set (sanitize_filename name)"
    by (auto simp: prefix_def)
  then show False using sanitize_safe [of name] by (auto simp: safe_chars_def)
qed

lemma sanitize_output_path_canonical:
  "sanitize_output_path (\<lambda>p. p) d name = Inr (d @ parse_parts (sanitize_filename name))"
  by (simp add: sanitize_output_path_def joinpath_def sanitize_no_slash Let_def)

lemma example_save:
  "output_directory cfg = PathValue d \<Longrightarrow> \<exists>out. save example_env cfg now img t ts cn = Inr out"
  by (simp add: save_def generate_output_path_def example_env_def sanitize_output_path_canonical
      Let_def)

lemma example_simulate: "\<exists>r. simulate example_env cfg img t = Inr r"
  by (simp add: simulate_def example_env_def)

lemma example_types:
  "output_directory cfg = PathValue d \<Longrightarrow>
   \<exists>r. process_types example_env cfg img ts types acc = Inr r"
proof (induction types arbitrary: acc)
  case Nil
  then show ?case by simp
next
  case (Cons t types)
  obtain r where r: "simulate example_env cfg img t = Inr r"
    using example_simulate by blast
  obtain out where out: "save example_env cfg ts r t (Some ts) None = Inr out"
    using example_save [OF Cons.prems] by blast
  show ?case using Cons.IH [OF Cons.prems] by (simp add: r out)
qed

lemma example_loads:
  "p = ''a.png'' \<or> p = ''c.png'' \<Longrightarrow> \<not> isl (process_image example_env default_config p)"
proof -
  assume p: "p = ''a.png'' \<or> p = ''c.png''"
  let ?img = "\<lparr> width = 1, height = 1, pixels = [(255, 0, 0)] \<rparr>"
  have load: "loader_load example_env p = Inr ?img" using p by (auto simp: example_env_def)
  have dir: "output_directory default_config = PathValue ''./outputs''"
    by (simp add: default_config_def)
  obtain r where "process_types example_env default_config ?img (clock example_env p)
      [PROTAN, DEUTAN, TRITAN, GRAYSCALE] [] = Inr r"
    using example_types [OF dir] by blast
  then show ?thesis by (simp add: process_image_def process_image_at_def load)
qed

lemma example_a: "\<not> isl (process_image example_env default_config ''a.png'')"
  by (rule example_loads) simp

lemma example_c: "\<not> isl (process_image example_env default_config ''c.png'')"
  by (rule example_loads) simp

lemma example_b: "process_image example_env default_config ''b.png'' = Inl ''File not found''"
  by (simp add: process_image_def process_image_at_def example_env_def)

lemma example_func_a: "process_func example_env default_config None ''a.png'' \<noteq> None"
  using example_a
  by (cases "process_image example_env default_config ''a.png''")
     (simp_all add: process_func_def process_single_image_def)

lemma example_func_b: "process_func example_env default_config None ''b.png'' = None"
  by (simp add: process_func_def process_single_image_def example_b)

lemma example_func_c: "process_func example_env default_config None ''c.png'' \<noteq> None"
  using example_c
  by (cases "process_image example_env default_config ''c.png''")
     (simp_all add: process_func_def process_single_image_def)

lemma example_pool: "runs_all example_env w"
  by (simp add: runs_all_def example_env_def)

subsection \<open>The aggregate failure policy\<close>

lemma dom_result_map: "dom (result_map f ps) = set ps"
  by (auto simp: result_map_def dom_def)

lemma single_image_None: "(process_single_image env cfg p = None) = isl (process_image env cfg p)"
  by (simp add: process_single_image_def split: sum.splits)

text \<open>
  Claim C1. For every non-empty list of input paths, batch processing raises the
  aggregate batch error exactly when no path succeeds, and the error then carries
  all the input paths as failed items (in input order for \<open>process_batch\<close>, in
  completion order for \<open>process_batch_parallel\<close>) and the success count 0. When at
  least one path succeeds the call returns a mapping in which every failed path
  maps to the failure marker \<open>None\<close> and every other path to its result; no
  exception is raised. The pool is assumed to complete exactly the submitted units.
\<close>

theorem batch_raises_iff_all_fail:
  assumes ne: "image_paths \<noteq> []" and pool: "runs_all env workers"
  shows
   "((\<exists>e. process_batch env cfg image_paths = Inl e)
       = (\<forall>p\<in>set image_paths. isl (process_image env cfg p)))
    \<and> ((\<forall>p\<in>set image_paths. isl (process_image env cfg p))
         \<longrightarrow> process_batch env cfg image_paths = Inl (BatchProcessingError image_paths 0))
    \<and> (\<forall>m. process_batch env cfg image_paths = Inr m
         \<longrightarrow> (\<forall>p\<in>set image_paths.
               if isl (process_image env cfg p) then m p = Some None
               else \<exists>r. m p = Some (Some r)))
    \<and> ((\<exists>e. process_batch_parallel env workers cfg image_paths cvd_type = Inl e)
       = (\<forall>p\<in>set image_paths. process_func env cfg cvd_type p = None))
    \<and> ((\<forall>p\<in>set image_paths. process_func env cfg cvd_type p = None)
         \<longrightarrow> (\<exists>failed. mset failed = mset image_paths
               \<and> process_batch_parallel env workers cfg image_paths cvd_type
                   = Inl (BatchProcessingError failed 0)))
    \<and> (\<forall>m. process_batch_parallel env workers cfg image_paths cvd_type = Inr m
         \<longrightarrow> (\<forall>p\<in>set image_paths.
               if process_func env cfg cvd_type p = None then m p = Some None
               else \<exists>r. m p = Some (Some r)))"
proof -
  let ?g = "process_single_image env cfg"
  let ?f = "process_func env cfg cvd_type"
  have seq: "process_batch env cfg image_paths =
      (if \<forall>p\<in>set image_paths. isl (process_image env cfg p)
       then Inl (BatchProcessingError image_paths 0) else Inr (result_map ?g image_paths))"
    using ne by (simp add: process_batch_eq single_image_None)
  obtain failed where perm: "mset failed = mset image_paths"
    and par: "process_batch_parallel env workers cfg image_paths cvd_type =
      (if \<forall>p\<in>set image_paths. ?f p = None
       then Inl (BatchProcessingError failed 0) else Inr (result_map ?f image_paths))"
    using process_batch_parallel_eq [OF pool, of image_paths cfg cvd_type] ne by auto
  have s1: "(\<exists>e. process_batch env cfg image_paths = Inl e)
       = (\<forall>p\<in>set image_paths. isl (process_image env cfg p))"
    by (simp add: seq)
  have s2: "(\<forall>p\<in>set image_paths. isl (process_image env cfg p))
         \<longrightarrow> process_batch env cfg image_paths = Inl (BatchProcessingError image_paths 0)"
    by (simp add: seq)
  have s3: "\<forall>m. process_batch env cfg image_paths = Inr m
         \<longrightarrow> (\<forall>p\<in>set image_paths.
               if isl (process_image env cfg p) then m p = Some None
               else \<exists>r. m p = Some (Some r))"
    by (auto simp: seq result_map_def single_image_None [symmetric] split: if_splits)
  have p1: "(\<exists>e. process_batch_parallel env workers cfg image_paths cvd_type = Inl e)
       = (\<forall>p\<in>set image_paths. ?f p = None)"
    by (simp add: par)
  have p2: "(\<forall>p\<in>set image_paths. ?f p = None)
         \<longrightarrow> (\<exists>failed. mset failed = mset image_paths
               \<and> process_batch_parallel env workers cfg image_paths cvd_type
                   = Inl (BatchProcessingError failed 0))"
    using perm by (auto simp: par)
  have p3: "\<forall>m. process_batch_parallel env workers cfg image_paths cvd_type = Inr m
         \<longrightarrow> (\<forall>p\<in>set image_paths.
               if ?f p = None then m p = Some None else \<exists>r. m p = Some (Some r))"
    by (auto simp: par result_map_def split: if_splits)
  from s1 s2 s3 p1 p2 p3 show ?thesis by blast
qed

text \<open>Two paths of which one fails, and one failing path alone.\<close>

theorem batch_raises_iff_all_fail_witness:
  "[''a.png'', ''b.png''] \<noteq> [] \<and> runs_all example_env 4
   \<and> (\<exists>m. process_batch example_env default_config [''a.png'', ''b.png''] = Inr m
         \<and> m ''b.png'' = Some None)
   \<and> process_batch example_env default_config [''b.png''] = Inl (BatchProcessingError [''b.png''] 0)
   \<and> (\<exists>m. process_batch_parallel example_env 4 default_config [''a.png'', ''b.png''] None = Inr m
         \<and> m ''b.png'' = Some None)"
proof -
  have h1: "[''a.png'', ''b.png''] \<noteq> []" and h2: "[''b.png''] \<noteq> []" by simp_all
  have h3: "runs_all example_env 4" by (rule example_pool)
  note t1 = batch_raises_iff_all_fail [OF h1 h3, of default_config None]
  note t2 = batch_raises_iff_all_fail [OF h2 h3, of default_config None]
  have a: "\<not> isl (process_image example_env default_config ''a.png'')" by (rule example_a)
  have b: "isl (process_image example_env default_config ''b.png'')" by (simp add: example_b)
  have fa: "process_func example_env default_config None ''a.png'' \<noteq> None"
    by (rule example_func_a)
  have fb: "process_func example_env default_config None ''b.png'' = None"
    by (rule example_func_b)
  have c1: "\<exists>m. process_batch example_env default_config [''a.png'', ''b.png''] = Inr m \<and> m ''b.png'' = Some None"
  proof (cases "process_batch example_env default_config [''a.png'', ''b.png'']")
    case (Inl e)
    then show ?thesis using t1 a by auto
  next
    case (Inr m)
    then show ?thesis using t1 b by auto
  qed
  have c2: "process_batch example_env default_config [''b.png''] = Inl (BatchProcessingError [''b.png''] 0)"
    using t2 b by simp
  have c3: "\<exists>m. process_batch_parallel example_env 4 default_config [''a.png'', ''b.png''] None = Inr m \<and> m ''b.png'' = Some None"
  proof (cases "process_batch_parallel example_env 4 default_config [''a.png'', ''b.png''] None")
    case (Inl e)
    then show ?thesis using t1 fa by auto
  next
    case (Inr m)
    then show ?thesis using t1 fb by auto
  qed
  from h1 h3 c1 c2 c3 show ?thesis by blast
qed

subsection \<open>Keys of the result and chunking\<close>

text \<open>
  Claim C10. For the empty input list each of the three entry points (sequential,
  parallel, chunked) returns the empty mapping and raises nothing, whatever the
  worker count, the chunk size and the requested type are.
\<close>

theorem empty_batch_returns_empty:
  "process_batch env cfg [] = Inr Map.empty
   \<and> process_batch_parallel env workers cfg [] cvd_type = Inr Map.empty
   \<and> process_batch_chunked env workers cfg [] chunk_size cvd_type = Inr Map.empty"
  by (simp add: process_batch_def process_batch_parallel_def process_batch_chunked_def)

lemma process_batch_chunked_succeeds:
  assumes "runs_all env w" "0 < k"
    and "\<forall>c\<in>set (chunks ps k). \<exists>p\<in>set c. process_func env cfg t p \<noteq> None"
  shows "process_batch_chunked env w cfg ps k t = Inr (result_map (process_func env cfg t) ps)"
proof (cases "ps = []")
  case True
  then show ?thesis by (simp add: process_batch_chunked_def result_map_def)
next
  case False
  have "chunk_loop env w cfg t (chunks ps k) Map.empty =
      Inr (Map.empty ++ result_map (process_func env cfg t) (concat (chunks ps k)))"
    using assms(3) by (intro chunk_loop_succeeds [OF assms(1)]) blast
  then show ?thesis using False assms(2) by (simp add: process_batch_chunked_def chunks_concat)
qed

text \<open>
  Claim C3. For every list of N distinct valid input paths, batch processing
  returns a mapping whose keys are exactly the N input paths, one entry per path,
  whatever the chunk size and the worker count are. A chunk size is a number of
  images per chunk, so at least 1, and a worker count is that of a pool that runs.
  The paths are distinct as \<open>Path\<close> values; a path is valid when its unit of work
  succeeds; the sequential entry point always processes all types.
\<close>

theorem distinct_valid_paths_all_keyed:
  assumes dist: "distinct image_paths"
    and valid: "\<forall>p\<in>set image_paths. process_func env cfg cvd_type p \<noteq> None"
    and pool: "runs_all env workers"
    and size: "0 < chunk_size"
  shows
   "(\<exists>m. process_batch_parallel env workers cfg image_paths cvd_type = Inr m
        \<and> dom m = set image_paths \<and> card (dom m) = length image_paths)
    \<and> (\<exists>m. process_batch_chunked env workers cfg image_paths chunk_size cvd_type = Inr m
        \<and> dom m = set image_paths \<and> card (dom m) = length image_paths)
    \<and> (cvd_type = None \<longrightarrow>
         (\<exists>m. process_batch env cfg image_paths = Inr m
            \<and> dom m = set image_paths \<and> card (dom m) = length image_paths))"
proof -
  let ?f = "process_func env cfg cvd_type"
  have card: "card (dom (result_map g image_paths)) = length image_paths" for g
    using dist by (simp add: dom_result_map distinct_card)
  have par: "process_batch_parallel env workers cfg image_paths cvd_type = Inr (result_map ?f image_paths)"
    using process_batch_parallel_eq [OF pool, of image_paths cfg cvd_type] valid by auto
  have "\<forall>c\<in>set (chunks image_paths chunk_size). \<exists>p\<in>set c. ?f p \<noteq> None"
  proof
    fix c assume c: "c \<in> set (chunks image_paths chunk_size)"
    then have "c \<noteq> []" by (rule chunks_nonempty [OF size])
    then obtain p where p: "p \<in> set c" by (cases c) auto
    have "set c \<subseteq> set (concat (chunks image_paths chunk_size))" using c by auto
    then have "p \<in> set image_paths" using p by (auto simp: chunks_concat [OF size])
    then show "\<exists>p\<in>set c. ?f p \<noteq> None" using valid p by blast
  qed
  then have chk: "process_batch_chunked env workers cfg image_paths chunk_size cvd_type
      = Inr (result_map ?f image_paths)"
    by (rule process_batch_chunked_succeeds [OF pool size])
  have seq: "process_batch env cfg image_paths = Inr (result_map (process_single_image env cfg) image_paths)"
    if "cvd_type = None"
    using valid that by (auto simp: process_batch_eq process_func_def)
  show ?thesis
    using par chk seq by (simp add: dom_result_map distinct_card [OF dist])
qed

theorem distinct_valid_paths_all_keyed_witness:
  "distinct [''a.png'', ''c.png''] \<and> runs_all example_env 4 \<and> (0::int) < 1
   \<and> process_func example_env default_config None ''a.png'' \<noteq> None
   \<and> process_func example_env default_config None ''c.png'' \<noteq> None
   \<and> (\<exists>m. process_batch_chunked example_env 4 default_config [''a.png'', ''c.png''] 1 None = Inr m
         \<and> dom m = set [''a.png'', ''c.png''] \<and> card (dom m) = length [''a.png'', ''c.png''])
   \<and> (\<exists>m. process_batch example_env default_config [''a.png'', ''c.png''] = Inr m
         \<and> card (dom m) = length [''a.png'', ''c.png''])"
proof -
  have d: "distinct [''a.png'', ''c.png'']" by simp
  have s: "(0::int) < 1" by simp
  have fa: "process_func example_env default_config None ''a.png'' \<noteq> None"
    by (rule example_func_a)
  have fc: "process_func example_env default_config None ''c.png'' \<noteq> None"
    by (rule example_func_c)
  have v: "\<forall>p\<in>set [''a.png'', ''c.png'']. process_func example_env default_config None p \<noteq> None"
    using fa fc by simp
  from distinct_valid_paths_all_keyed [OF d v example_pool s, of 4]
  show ?thesis using d s fa fc example_pool [of 4] by blast
qed

text \<open>
  Claim C2 fails on the code. With the chunk size 1 the list of \<open>a.png\<close>, which
  succeeds, and \<open>b.png\<close>, which fails, has the chunks \<open>[a.png]\<close> and \<open>[b.png]\<close>. The
  call for the second chunk raises the aggregate error for that chunk,
  \<open>process_batch_chunked\<close> does not catch it, and the result of \<open>a.png\<close> is lost;
  unchunked processing of the same list returns the mapping with the result of
  \<open>a.png\<close> and the failure marker for \<open>b.png\<close>.
\<close>

theorem chunked_raises_on_failed_chunk:
  "chunks [''a.png'', ''b.png''] 1 = [[''a.png''], [''b.png'']]
   \<and> process_batch_chunked example_env 4 default_config [''a.png'', ''b.png''] 1 None
       = Inl (BatchProcessingError [''b.png''] 0)
   \<and> process_batch_parallel example_env 4 default_config [''a.png'', ''b.png''] None
       = Inr (result_map (process_func example_env default_config None) [''a.png'', ''b.png''])
   \<and> result_map (process_func example_env default_config None) [''a.png'', ''b.png''] ''b.png''
       = Some None
   \<and> result_map (process_func example_env default_config None) [''a.png'', ''b.png''] ''a.png''
       \<noteq> Some None"
proof -
  let ?f = "process_func example_env default_config None"
  have ch: "chunks [''a.png'', ''b.png''] 1 = [[''a.png''], [''b.png'']]"
    by (simp add: chunks_def py_range_def)
  have first: "process_batch_parallel example_env 4 default_config [''a.png''] None
      = Inr (result_map ?f [''a.png''])"
    using process_batch_parallel_eq [OF example_pool, of "[''a.png'']" 4 default_config None]
      example_func_a by auto
  obtain failed where failed: "mset failed = mset [''b.png'']"
    and second: "process_batch_parallel example_env 4 default_config [''b.png''] None
      = Inl (BatchProcessingError failed 0)"
    using process_batch_parallel_eq [OF example_pool, of "[''b.png'']" 4 default_config None]
      example_func_b by auto
  have "failed = [''b.png'']" using failed by (simp add: mset_single_iff_right)
  then have chunked: "process_batch_chunked example_env 4 default_config [''a.png'', ''b.png''] 1 None
       = Inl (BatchProcessingError [''b.png''] 0)"
    by (simp add: process_batch_chunked_def ch first second)
  have whole: "process_batch_parallel example_env 4 default_config [''a.png'', ''b.png''] None
       = Inr (result_map ?f [''a.png'', ''b.png''])"
    using process_batch_parallel_eq [OF example_pool, of "[''a.png'', ''b.png'']" 4 default_config None]
      example_func_a by auto
  have b: "result_map ?f [''a.png'', ''b.png''] ''b.png'' = Some None"
    by (simp add: result_map_def example_func_b)
  have a: "result_map ?f [''a.png'', ''b.png''] ''a.png'' \<noteq> Some None"
    using example_func_a by (simp add: result_map_def)
  from ch chunked whole b a show ?thesis by blast
qed

section \<open>Properties of the worker count\<close>

text \<open>
  Claim C6, amended. The worker count of a batch run is the first truthy operand
  of \<open>max_workers or config.max_workers or cpu_count()\<close>: the override passed by the
  caller when it is given and not zero, else the \<open>max_workers\<close> of the (valid)
  configuration when it is set, else the platform default. It is not clamped to the
  number of input paths; it is at least 1 when the override is not negative. Only
  the helper \<open>get_optimal_workers\<close> clamps: its result is at least 1 and, for at
  least one image, at most the number of images.
\<close>

theorem worker_count_selection:
  assumes valid: "new_SimulationConfig cfg = Inr cfg" and cpus: "1 \<le> cpus"
  shows
   "(\<forall>n. max_workers_arg = Some n \<and> n \<noteq> 0 \<longrightarrow> effective_workers max_workers_arg cfg cpus = n)
    \<and> ((max_workers_arg = None \<or> max_workers_arg = Some 0) \<longrightarrow>
          effective_workers max_workers_arg cfg cpus
            = (case max_workers cfg of Some k \<Rightarrow> k | None \<Rightarrow> cpus))
    \<and> ((\<forall>n. max_workers_arg = Some n \<longrightarrow> 0 \<le> n) \<longrightarrow> 1 \<le> effective_workers max_workers_arg cfg cpus)
    \<and> 1 \<le> get_optimal_workers memory_based_limit available_cpus image_count
    \<and> (1 \<le> image_count \<longrightarrow>
          get_optimal_workers memory_based_limit available_cpus image_count \<le> image_count)"
proof -
  have k: "1 \<le> k" if "max_workers cfg = Some k" for k
    using valid that by (auto simp: new_SimulationConfig_def validate_def split: if_splits sum.splits)
  show ?thesis
    using cpus k
    by (cases max_workers_arg; cases "max_workers cfg")
       (auto simp: effective_workers_def get_optimal_workers_def Let_def dest: k)
qed

theorem worker_count_selection_witness:
  "new_SimulationConfig (default_config\<lparr>max_workers := Some 2\<rparr>) = Inr (default_config\<lparr>max_workers := Some 2\<rparr>)
   \<and> (1::int) \<le> 8
   \<and> effective_workers (Some 4) (default_config\<lparr>max_workers := Some 2\<rparr>) 8 = 4
   \<and> effective_workers None (default_config\<lparr>max_workers := Some 2\<rparr>) 8 = 2
   \<and> effective_workers None default_config 8 = 8
   \<and> get_optimal_workers 100 8 3 \<le> 3"
  using worker_count_selection [of "default_config\<lparr>max_workers := Some 2\<rparr>" 8 "Some 4" 100 8 3]
        worker_count_selection [of "default_config\<lparr>max_workers := Some 2\<rparr>" 8 None 100 8 3]
        worker_count_selection [of "default_config" 8 None 100 8 3]
  by (simp add: new_SimulationConfig_def validate_def default_config_def)

text \<open>An override of 4 beats the configured 2 and exceeds the single input path;
  a negative override gives a count below 1.\<close>

theorem worker_count_counterexample:
  "effective_workers (Some 4) (default_config\<lparr>max_workers := Some 2\<rparr>) 8 = 4
   \<and> spec_worker_count (default_config\<lparr>max_workers := Some 2\<rparr>) (Some 4) 8 (length [''a.png'']) = 1
   \<and> int (length [''a.png'']) < effective_workers (Some 4) (default_config\<lparr>max_workers := Some 2\<rparr>) 8
   \<and> effective_workers (Some (- 3)) default_config 8 < 1"
  by (simp add: effective_workers_def spec_worker_count_def default_config_def)

section \<open>Properties of path sanitizing\<close>

text \<open>
  Claim C5. For every base directory and every file name, whatever it contains
  (parent references, a leading slash, null bytes), \<open>sanitize_output_path\<close> either
  fails with the \<open>PATH_TRAVERSAL\<close> security error or returns a path under the
  resolved base directory (the base directory itself for the name \<open>.\<close>); it never
  returns a path outside of it. This holds for every behaviour of \<open>resolve\<close>,
  symbolic links included.
\<close>

theorem sanitized_path_stays_inside:
  "(sanitize_output_path resolve base name = Inl (SecurityError ''PATH_TRAVERSAL'')
      \<or> (\<exists>t. sanitize_output_path resolve base name = Inr t \<and> prefix (resolve base) t))
   \<and> (\<forall>t. sanitize_output_path resolve base name = Inr t \<longrightarrow> prefix (resolve base) t)"
  by (auto simp: sanitize_output_path_def Let_def)

text \<open>A name with parent references, a name with a null byte, and a sanitized name
  that is a symbolic link to a directory outside of the base.\<close>

theorem sanitized_path_stays_inside_witness:
  "sanitize_output_path lexical_resolve [''/'', ''safe'', ''output''] ''../../etc/passwd''
     = Inr [''/'', ''safe'', ''output'', ''____etc_passwd'']
   \<and> prefix (lexical_resolve [''/'', ''safe'', ''output''])
         [''/'', ''safe'', ''output'', ''____etc_passwd'']
   \<and> sanitize_output_path lexical_resolve [''/'', ''safe'', ''output''] [CHR ''a'', CHR 0x00, CHR ''/'']
     = Inr [''/'', ''safe'', ''output'', ''a__'']
   \<and> sanitize_output_path link_resolve [''/'', ''safe'', ''output''] ''link''
     = Inl (SecurityError ''PATH_TRAVERSAL'')"
  using sanitized_path_stays_inside [of lexical_resolve "[''/'', ''safe'', ''output'']" "''../../etc/passwd''"]
    sanitized_path_stays_inside [of link_resolve "[''/'', ''safe'', ''output'']" "''link''"]
  by (simp add: sanitize_output_path_def sanitize_filename_def dangerous_def safe_chars_def
      joinpath_def parse_parts_def lexical_resolve_def link_resolve_def Let_def)

section \<open>Properties of grayscale simulation\<close>

text \<open>
  Claim C8. For every input image, simulating \<open>GRAYSCALE\<close> succeeds with an image of
  the same size whose three channels are equal in every pixel; the result does not
  depend on the configuration (severity, algorithm) nor on the external transform;
  and simulating the result again gives the same image. The last part needs the one
  fact about Pillow's luminance that a grey pixel keeps its value, which the example
  environment shows for the ITU-R 601-2 weights.
\<close>

theorem grayscale_simulation:
  "(\<exists>out. simulate env cfg img GRAYSCALE = Inr out
        \<and> (\<forall>px\<in>set (pixels out). fst px = fst (snd px) \<and> fst (snd px) = snd (snd px))
        \<and> width out = width img \<and> height out = height img
        \<and> length (pixels out) = length (pixels img)
        \<and> ((\<forall>l. luminance env (l, l, l) = l) \<longrightarrow> simulate env cfg out GRAYSCALE = Inr out))
   \<and> simulate env cfg img GRAYSCALE = simulate env cfg' img GRAYSCALE
   \<and> simulate env cfg img GRAYSCALE
       = simulate (env\<lparr>simulate_cvd := other_transform\<rparr>) cfg img GRAYSCALE"
  by (auto simp: simulate_def convert_RGB_def convert_L_def comp_def)

lemma example_luminance: "luminance example_env (l, l, l) = l"
proof -
  have "l * 19595 + l * 38470 + l * 7471 + 32768 = l * 65536 + 32768" by simp
  then show ?thesis by (simp add: example_env_def)
qed

theorem grayscale_simulation_witness:
  "(\<forall>l. luminance example_env (l, l, l) = l)
   \<and> simulate example_env default_config \<lparr> width = 2, height = 1, pixels = [(255, 0, 0), (10, 20, 30)] \<rparr> GRAYSCALE
       = Inr \<lparr> width = 2, height = 1, pixels = [(76, 76, 76), (18, 18, 18)] \<rparr>
   \<and> simulate example_env default_config \<lparr> width = 2, height = 1, pixels = [(76, 76, 76), (18, 18, 18)] \<rparr> GRAYSCALE
       = Inr \<lparr> width = 2, height = 1, pixels = [(76, 76, 76), (18, 18, 18)] \<rparr>"
proof -
  let ?img = "\<lparr> width = 2, height = 1, pixels = [(255, 0, 0), (10, 20, 30)] \<rparr>"
  let ?out = "\<lparr> width = 2, height = 1, pixels = [(76, 76, 76), (18, 18, 18)] \<rparr>"
  have lum: "\<forall>l. luminance example_env (l, l, l) = l" by (simp add: example_luminance)
  have ev: "simulate example_env default_config ?img GRAYSCALE = Inr ?out"
    by (simp add: simulate_def convert_RGB_def convert_L_def example_env_def)
  from grayscale_simulation [of example_env default_config ?img default_config "\<lambda>a t s i. Inr i"]
  have "simulate example_env default_config ?out GRAYSCALE = Inr ?out"
    using lum ev by auto
  then show ?thesis using lum ev by blast
qed

section \<open>Properties of the metadata sidecar\<close>

lemma of_to_json: "json_native v \<Longrightarrow> of_json (to_json v) = v"
proof (induction v)
  case (VList vs)
  then show ?case by (simp add: list_all_iff map_idI)
next
  case (VDict kvs)
  have "map_prod id of_json (map_prod id to_json kv) = kv" if "kv \<in> set kvs" for kv
  proof -
    obtain k v where kv: "kv = (k, v)" by (cases kv)
    have "json_native v" using VDict.prems that by (auto simp: kv list_all_iff)
    moreover have "v \<in> Basic_BNFs.snds kv" by (simp add: kv)
    ultimately have "of_json (to_json v) = v" using VDict.IH that by blast
    then show ?thesis by (simp add: kv)
  qed
  then show ?case by (simp add: map_idI)
qed simp_all

lemma as_str_items_str: "as_str_items (map (map_prod id JStr) d) = Inr d"
  by (induction d) auto

lemma as_str_dict_str: "as_str_dict (str_dict d) = Inr d"
  by (simp add: str_dict_def as_str_items_str)

lemma read_document:
  assumes "list_all (pred_prod (\<lambda>k. True) json_native) (config m)"
  shows "load_metadata p (export_metadata m p fs) = Inr m"
proof -
  have "json_native (VDict (config m))" using assms by simp
  then have "of_json (to_json (VDict (config m))) = VDict (config m)" by (rule of_to_json)
  then have conf: "map (map_prod id of_json \<circ> map_prod id to_json) (config m) = config m"
    by simp
  show ?thesis
    by (simp add: load_metadata_def export_metadata_def metadata_document_def read_record_def
        required_def optional_def bind_result_def as_str_dict_str conf)
qed

text \<open>
  Claim C9, amended. For every \<open>SimulationMetadata\<close> record with fields of the
  annotated types and a finite execution time whose configuration snapshot holds
  JSON values only (\<open>None\<close>, booleans, integers, finite floats, strings, lists and
  dictionaries of such, as \<open>create_metadata\<close> builds it from \<open>config.to_dict()\<close>),
  exporting the record to a sidecar file and loading that file gives an equal
  record.
\<close>

theorem metadata_round_trip:
  "list_all (pred_prod (\<lambda>k. True) json_native) (config metadata)
   \<Longrightarrow> load_metadata output_path (export_metadata metadata output_path fs) = Inr metadata"
  by (rule read_document)

theorem metadata_round_trip_witness:
  "list_all (pred_prod (\<lambda>k. True) json_native) (config example_metadata)
   \<and> load_metadata ''input_metadata.json''
        (export_metadata example_metadata ''input_metadata.json'' Map.empty) = Inr example_metadata"
proof -
  have h: "list_all (pred_prod (\<lambda>k. True) json_native) (config example_metadata)"
    by (simp add: example_metadata_def)
  from metadata_round_trip [OF h] h show ?thesis by blast
qed

text \<open>A \<open>Path\<close> object in the configuration snapshot is written as its string and
  comes back as a string.\<close>

theorem metadata_round_trip_counterexample:
  "load_metadata ''input_metadata.json''
        (export_metadata path_valued_metadata ''input_metadata.json'' Map.empty)
     = Inr (path_valued_metadata\<lparr> config := [(''output_directory'', VStr ''outputs'')] \<rparr>)
   \<and> load_metadata ''input_metadata.json''
        (export_metadata path_valued_metadata ''input_metadata.json'' Map.empty)
     \<noteq> Inr path_valued_metadata"
  by (simp add: load_metadata_def export_metadata_def metadata_document_def read_record_def
      required_def optional_def bind_result_def as_str_dict_str path_valued_metadata_def
      example_metadata_def)

section \<open>Properties of the command line\<close>

lemma count_successes_le:
  "count_successes env cli cfg t flag ps n \<le> n + length ps"
proof (induction ps arbitrary: n)
  case Nil
  then show ?case by simp
next
  case (Cons p ps)
  have "fst (cli_process_single_image env cli cfg t flag p) \<le> 1"
    by (simp add: cli_process_single_image_def split: sum.splits)
  then show ?case using Cons [of "n + fst (cli_process_single_image env cli cfg t flag p)"] by simp
qed

lemma count_successes_all:
  "(count_successes env cli cfg t flag ps n = n + length ps)
     = (\<forall>p\<in>set ps. \<not> isl (single_image_work env cli cfg t flag p))"
proof (induction ps arbitrary: n)
  case Nil
  then show ?case by simp
next
  case (Cons p ps)
  show ?case
  proof (cases "single_image_work env cli cfg t flag p")
    case (Inl e)
    then have "count_successes env cli cfg t flag (p # ps) n = count_successes env cli cfg t flag ps n"
      by (simp add: cli_process_single_image_def)
    moreover have "count_successes env cli cfg t flag ps n \<le> n + length ps"
      by (rule count_successes_le)
    ultimately show ?thesis using Inl by simp
  next
    case (Inr r)
    then show ?thesis using Cons [of "Suc n"] by (simp add: cli_process_single_image_def)
  qed
qed

text \<open>
  Claim C7, amended. When the argument parser leaves (\<open>--version\<close> and \<open>--help\<close> with
  status 0, arguments it does not accept with status 2), \<open>main\<close> leaves with that
  status. With a listing option \<open>main\<close> returns 0 without processing anything.
  Otherwise, with no input path it leaves through the error of the parser, exit
  status 2; with at least one input path an exception of the logging setup (a log
  file that cannot be opened) escapes, and else \<open>main\<close> returns 1 when the
  configuration or the simulator cannot be built, and else 0 exactly when every
  supplied path was processed successfully and 1 when some path failed.
\<close>

theorem main_exit_code:
  "(\<forall>status. parse_args cli args = Inl status \<longrightarrow> main env cli args = SystemExit status)
   \<and> (\<forall>parsed. parse_args cli args = Inr parsed \<longrightarrow>
        ((parsed_list_algorithms parsed \<or> parsed_list_types parsed \<or> parsed_list_presets parsed)
           \<longrightarrow> main env cli args = Returns 0)
        \<and> (\<not> parsed_list_algorithms parsed \<and> \<not> parsed_list_types parsed
             \<and> \<not> parsed_list_presets parsed \<longrightarrow>
           (parsed_images parsed = [] \<longrightarrow> main env cli args = SystemExit 2)
           \<and> (parsed_images parsed \<noteq> [] \<longrightarrow>
                (\<forall>e. setup_logging cli (log_level_of parsed) (log_file_of parsed) = Inl e
                      \<longrightarrow> main env cli args = Raises e)
                \<and> (\<forall>u. setup_logging cli (log_level_of parsed) (log_file_of parsed) = Inr u \<longrightarrow>
                     (\<forall>e. build_config cli parsed = Inl e \<longrightarrow> main env cli args = Returns 1)
                     \<and> (\<forall>cfg. build_config cli parsed = Inr cfg \<longrightarrow>
                          (\<forall>e. init_simulator cli cfg = Inl e \<longrightarrow> main env cli args = Returns 1)
                          \<and> (\<forall>v. init_simulator cli cfg = Inr v \<longrightarrow>
                               (main env cli args = Returns 0 \<or> main env cli args = Returns 1)
                               \<and> ((main env cli args = Returns 0)
                                    = (\<forall>p\<in>set (parsed_images parsed).
                                         \<not> isl (single_image_work env cli cfg (parsed_type parsed)
                                                  (parsed_export_metadata parsed) p)))))))))"
proof -
  have loop: "(count_successes env cli cfg (parsed_type parsed) (parsed_export_metadata parsed)
                 (parsed_images parsed) 0 = length (parsed_images parsed))
      = (\<forall>p\<in>set (parsed_images parsed).
            \<not> isl (single_image_work env cli cfg (parsed_type parsed)
                     (parsed_export_metadata parsed) p))" for cfg parsed
    using count_successes_all [of env cli cfg "parsed_type parsed" "parsed_export_metadata parsed"
        "parsed_images parsed" 0] by simp
  show ?thesis
    by (auto simp: main_def Let_def log_file_of_def log_level_of_def loop split: sum.splits)
qed


lemma example_build:
  "build_config example_cli (example_args\<lparr>parsed_images := ps\<rparr>) = Inr default_config"
  by (simp add: build_config_def example_args_def example_cli_def new_SimulationConfig_def
      validate_def default_config_def)

lemma example_work_a:
  "\<not> isl (single_image_work example_env example_cli default_config None False ''a.png'')"
  using example_a
  by (cases "process_image example_env default_config ''a.png''")
     (simp_all add: single_image_work_def)

lemma example_work_b:
  "isl (single_image_work example_env example_cli default_config None False ''b.png'')"
  by (simp add: single_image_work_def example_b)

lemma example_parse_images:
  "parse_args example_cli [''a.png''] = Inr (example_args\<lparr>parsed_images := [''a.png'']\<rparr>)"
  "parse_args example_cli [''a.png'', ''b.png'']
     = Inr (example_args\<lparr>parsed_images := [''a.png'', ''b.png'']\<rparr>)"
  "parse_args example_cli [] = Inr (example_args\<lparr>parsed_images := []\<rparr>)"
  by (simp_all add: example_cli_def example_parse_def)

lemma example_fields:
  "\<not> parsed_list_algorithms (example_args\<lparr>parsed_images := ps\<rparr>)"
  "\<not> parsed_list_types (example_args\<lparr>parsed_images := ps\<rparr>)"
  "\<not> parsed_list_presets (example_args\<lparr>parsed_images := ps\<rparr>)"
  "parsed_type (example_args\<lparr>parsed_images := ps\<rparr>) = None"
  "parsed_export_metadata (example_args\<lparr>parsed_images := ps\<rparr>) = False"
  "parsed_images (example_args\<lparr>parsed_images := ps\<rparr>) = ps"
  "setup_logging example_cli (log_level_of (example_args\<lparr>parsed_images := ps\<rparr>))
     (log_file_of (example_args\<lparr>parsed_images := ps\<rparr>)) = Inr ()"
  "init_simulator example_cli default_config = Inr ()"
  by (simp_all add: example_args_def example_cli_def setup_logging_def log_file_of_def)

text \<open>The version option, a quality that is no number, a listing option, no path,
  a log file that is a directory, one good path, and a good and a bad path.\<close>

theorem main_exit_code_witness:
  "main example_env example_cli [''--version''] = SystemExit 0
   \<and> main example_env example_cli [''a.png'', ''-q'', ''abc''] = SystemExit 2
   \<and> main example_env example_cli [''--list-types''] = Returns 0
   \<and> main example_env example_cli [] = SystemExit 2
   \<and> main example_env example_cli [''a.png'', ''--log-file'', ''/''] = Raises ''IsADirectoryError''
   \<and> main example_env example_cli [''a.png''] = Returns 0
   \<and> main example_env example_cli [''a.png'', ''b.png''] = Returns 1"
proof -
  have v: "main example_env example_cli [''--version''] = SystemExit 0"
    using main_exit_code [of example_cli "[''--version'']" example_env]
    by (simp add: example_cli_def example_parse_def)
  have q: "main example_env example_cli [''a.png'', ''-q'', ''abc''] = SystemExit 2"
    using main_exit_code [of example_cli "[''a.png'', ''-q'', ''abc'']" example_env]
    by (simp add: example_cli_def example_parse_def)
  have l: "main example_env example_cli [''--list-types''] = Returns 0"
    using main_exit_code [of example_cli "[''--list-types'']" example_env]
    by (simp add: example_cli_def example_parse_def example_args_def)
  have z: "main example_env example_cli [] = SystemExit 2"
    using main_exit_code [of example_cli "[]" example_env]
    by (simp add: example_parse_images example_fields)
  have f: "main example_env example_cli [''a.png'', ''--log-file'', ''/''] = Raises ''IsADirectoryError''"
    using main_exit_code [of example_cli "[''a.png'', ''--log-file'', ''/'']" example_env]
    by (simp add: example_cli_def example_parse_def example_args_def setup_logging_def
        log_file_of_def)
  have a: "main example_env example_cli [''a.png''] = Returns 0"
    using main_exit_code [of example_cli "[''a.png'']" example_env] example_work_a
    by (simp add: example_parse_images example_fields example_build)
  have b: "main example_env example_cli [''a.png'', ''b.png''] = Returns 1"
    using main_exit_code [of example_cli "[''a.png'', ''b.png'']" example_env] example_work_b
    by (auto simp: example_parse_images example_fields example_build)
  from v q l z f a b show ?thesis by blast
qed

text \<open>No input path: the exit status is 2, not 1.\<close>

theorem main_zero_inputs_counterexample:
  "parse_args example_cli [] = Inr example_args
   \<and> parsed_images example_args = []
   \<and> main example_env example_cli [] = SystemExit 2
   \<and> main example_env example_cli [] \<noteq> Returns 1"
  by (simp add: main_def example_cli_def example_parse_def example_args_def)

end
